theory Spec2Isabelle
  imports Main "HOL-Library.Sublist"
begin

section \<open>Data model\<close>

text \<open>
  The scripts handle the records of the API as Python dictionaries read from JSON. A
  field value is modelled as a JSON scalar: \<open>null\<close> (Python \<open>None\<close>), an integer or
  a string. Booleans, non-integral numbers and nested arrays or objects as field values
  are outside the model. A dictionary is an association list in insertion order; a
  lookup reads the first binding of the key.
\<close>

datatype jval = JNull | JInt int | JStr string

type_synonym call = "(string \<times> jval) list"

text \<open>\<^verbatim>\<open>d.get(k)\<close>: the value of the key, \<open>None\<close> when the key is absent.\<close>

definition get :: "call \<Rightarrow> string \<Rightarrow> jval" where
  "get c k = (case map_of c k of None \<Rightarrow> JNull | Some v \<Rightarrow> v)"

text \<open>\<^verbatim>\<open>d.get(k, default)\<close>: the default only replaces an absent key, not a \<open>null\<close> value.\<close>

definition get_default :: "call \<Rightarrow> string \<Rightarrow> jval \<Rightarrow> jval" where
  "get_default c k d = (case map_of c k of None \<Rightarrow> d | Some v \<Rightarrow> v)"

section \<open>The Differ: \<^verbatim>\<open>compare_calls\<close>\<close>

definition incident_id :: "call \<Rightarrow> jval" where
  "incident_id c = get c ''Master_Incident_Number''"

definition compare_calls :: "call list \<Rightarrow> call list \<Rightarrow> call list \<times> call list" where
  "compare_calls previous_calls current_calls =
     (let prev_ids = set (map incident_id previous_calls);
          curr_ids = set (map incident_id current_calls);
          new_ids = curr_ids - prev_ids;
          resolved_ids = prev_ids - curr_ids;
          new_calls = filter (\<lambda>c. incident_id c \<in> new_ids) current_calls;
          resolved_calls = filter (\<lambda>c. incident_id c \<in> resolved_ids) previous_calls
      in (new_calls, resolved_calls))"

text \<open>A record without the incident-identifier key.\<close>

definition keyless :: "call \<Rightarrow> bool" where
  "keyless c = (map_of c ''Master_Incident_Number'' = None)"

section \<open>Text helpers\<close>

text \<open>
  Strings are byte strings. \<open>str_nat\<close> and \<open>str_int\<close> are Python's \<^verbatim>\<open>str\<close> on a
  non-negative and on an arbitrary integer.
\<close>

definition digit_char :: "nat \<Rightarrow> char" where
  "digit_char d = char_of (48 + d)"

fun str_nat :: "nat \<Rightarrow> string" where
  "str_nat n = (if n < 10 then [digit_char n] else str_nat (n div 10) @ [digit_char (n mod 10)])"

declare str_nat.simps [simp del]

definition str_int :: "int \<Rightarrow> string" where
  "str_int i = (if i < 0 then CHR ''-'' # str_nat (nat (- i)) else str_nat (nat i))"

definition nl :: string where
  "nl = [char_of (10::nat)]"

text \<open>How an f-string renders a field value: \<^verbatim>\<open>str(None)\<close> is \<^verbatim>\<open>None\<close>.\<close>

definition py_str :: "jval \<Rightarrow> string" where
  "py_str v = (case v of JNull \<Rightarrow> ''None'' | JInt i \<Rightarrow> str_int i | JStr s \<Rightarrow> s)"

text \<open>\<^verbatim>\<open>s.replace('Z', '+00:00')\<close>\<close>

definition replace_Z :: "string \<Rightarrow> string" where
  "replace_Z s = concat (map (\<lambda>c. if c = CHR ''Z'' then ''+00:00'' else [c]) s)"

section \<open>Dictionaries with counters\<close>

text \<open>\<^verbatim>\<open>d.get(k, default)\<close> and \<^verbatim>\<open>d[k] = v\<close> on a dictionary in insertion order.\<close>

fun dict_get :: "('k \<times> 'v) list \<Rightarrow> 'k \<Rightarrow> 'v \<Rightarrow> 'v" where
  "dict_get [] k d = d"
| "dict_get ((k', v) # r) k d = (if k' = k then v else dict_get r k d)"

fun dict_set :: "('k \<times> 'v) list \<Rightarrow> 'k \<Rightarrow> 'v \<Rightarrow> ('k \<times> 'v) list" where
  "dict_set [] k v = [(k, v)]"
| "dict_set ((k', v') # r) k v = (if k' = k then (k', v) # r else (k', v') # dict_set r k v)"

section \<open>Timestamps\<close>

text \<open>
  The fields of a \<^verbatim>\<open>datetime\<close> that the scripts read. The parser
  \<^verbatim>\<open>datetime.fromisoformat\<close> belongs to the Python library and differs between Python
  versions; it is a parameter \<open>fromisoformat\<close> of every function that reaches it, and
  \<open>None\<close> stands for its \<^verbatim>\<open>ValueError\<close>.
\<close>

record datetime =
  hour :: nat
  minute :: nat

text \<open>
  A field value that is not a string has no \<^verbatim>\<open>replace\<close>: the \<^verbatim>\<open>AttributeError\<close> is
  caught like the \<^verbatim>\<open>ValueError\<close> of the parser.
\<close>

definition parse_response_date :: "(string \<Rightarrow> datetime option) \<Rightarrow> jval \<Rightarrow> datetime option" where
  "parse_response_date fromisoformat response_date_str =
     (case response_date_str of
        JStr s \<Rightarrow> fromisoformat (replace_Z s)
      | _ \<Rightarrow> None)"

text \<open>\<^verbatim>\<open>strftime('%I:%M %p')\<close>: the twelve-hour clock, zero-padded, in the C locale.\<close>

definition two_digits :: "nat \<Rightarrow> string" where
  "two_digits n = (if n < 10 then CHR ''0'' # str_nat n else str_nat n)"

definition strftime_I_M_p :: "datetime \<Rightarrow> string" where
  "strftime_I_M_p t =
     two_digits (if hour t mod 12 = 0 then 12 else hour t mod 12) @ '':'' @ two_digits (minute t)
       @ '' '' @ (if hour t < 12 then ''AM'' else ''PM'')"

section \<open>The Historical Log Writer: \<^verbatim>\<open>format_call_for_log\<close>\<close>

definition format_call_for_log ::
  "(string \<Rightarrow> datetime option) \<Rightarrow> call \<Rightarrow> string \<Rightarrow> string" where
  "format_call_for_log fromisoformat c status =
     (let incident_num = get_default c ''Master_Incident_Number'' (JStr ''UNKNOWN'');
          description = get_default c ''Online_Description'' (JStr ''Unknown Call Type'');
          address = get_default c ''Address'' (JStr ''Unknown Location'');
          response_date = get_default c ''Response_Date'' (JStr []);
          parsed_time = parse_response_date fromisoformat response_date;
          time_str = (case parsed_time of Some t \<Rightarrow> strftime_I_M_p t | None \<Rightarrow> ''Unknown Time'')
      in ''['' @ status @ ''] '' @ py_str incident_num @ '' | '' @ py_str description @ '' | ''
           @ py_str address @ '' | Response: '' @ time_str)"

section \<open>The Stats Aggregator: \<^verbatim>\<open>update_stats\<close>\<close>

text \<open>
  The stats dictionary. In memory the two frequency tables are keyed by the field value
  itself, which need not be a string; the hour buckets are keyed by \<^verbatim>\<open>str(hour)\<close>.
\<close>

record stats =
  total_calls_tracked :: nat
  total_resolved :: nat
  call_types :: "(jval \<times> nat) list"
  addresses :: "(jval \<times> nat) list"
  hourly_distribution :: "(string \<times> nat) list"
  first_tracked :: "string option"
  last_updated :: "string option"
  peak_active_calls :: nat
  total_snapshots :: nat

definition default_stats :: stats where
  "default_stats =
     \<lparr>total_calls_tracked = 0, total_resolved = 0, call_types = [], addresses = [],
      hourly_distribution = map (\<lambda>i. (str_nat i, 0)) [0..<24],
      first_tracked = None, last_updated = None, peak_active_calls = 0, total_snapshots = 0\<rparr>"

text \<open>
  What \<^verbatim>\<open>json.load\<close> reads back after \<^verbatim>\<open>json.dump\<close> wrote a frequency table:
  \<^verbatim>\<open>json.dump\<close> writes a key that is \<open>None\<close> as \<^verbatim>\<open>"null"\<close> and an integer key in
  decimal, and \<^verbatim>\<open>json.load\<close> keeps the last value of a name that occurs twice.
\<close>

definition json_key :: "jval \<Rightarrow> string" where
  "json_key k = (case k of JNull \<Rightarrow> ''null'' | JInt i \<Rightarrow> str_int i | JStr s \<Rightarrow> s)"

definition json_table :: "(jval \<times> nat) list \<Rightarrow> (jval \<times> nat) list" where
  "json_table d = foldl (\<lambda>acc (k, v). dict_set acc (JStr (json_key k)) v) [] d"

definition json_stats :: "stats \<Rightarrow> stats" where
  "json_stats s = s\<lparr>call_types := json_table (call_types s), addresses := json_table (addresses s)\<rparr>"

text \<open>The body of the loop over the new calls.\<close>

definition track_call :: "(string \<Rightarrow> datetime option) \<Rightarrow> stats \<Rightarrow> call \<Rightarrow> stats" where
  "track_call fromisoformat s c =
     (let call_type = get_default c ''Online_Description'' (JStr ''Unknown'');
          s1 = s\<lparr>call_types := dict_set (call_types s) call_type
                                  (dict_get (call_types s) call_type 0 + 1)\<rparr>;
          address = get_default c ''Address'' (JStr ''Unknown'');
          s2 = s1\<lparr>addresses := dict_set (addresses s1) address
                                  (dict_get (addresses s1) address 0 + 1)\<rparr>;
          response_date = get_default c ''Response_Date'' (JStr []);
          parsed_time = parse_response_date fromisoformat response_date
      in case parsed_time of
           None \<Rightarrow> s2
         | Some t \<Rightarrow>
             (let h = str_nat (hour t)
              in s2\<lparr>hourly_distribution := dict_set (hourly_distribution s2) h
                                              (dict_get (hourly_distribution s2) h 0 + 1)\<rparr>))"

text \<open>
  The stats in memory at the end of \<^verbatim>\<open>update_stats\<close>, from the content of the stats file
  (\<open>None\<close> when the file does not exist) and the current instant \<open>now\<close>.
\<close>

definition updated_stats ::
  "(string \<Rightarrow> datetime option) \<Rightarrow> string \<Rightarrow> stats option \<Rightarrow> call list \<Rightarrow> call list \<Rightarrow> nat \<Rightarrow> stats" where
  "updated_stats fromisoformat now file new_calls resolved_calls total_active =
     (let s0 = (case file of Some s \<Rightarrow> s | None \<Rightarrow> default_stats);
          s1 = s0\<lparr>total_calls_tracked := total_calls_tracked s0 + length new_calls,
                  total_resolved := total_resolved s0 + length resolved_calls,
                  last_updated := Some now,
                  total_snapshots := total_snapshots s0 + 1\<rparr>;
          s2 = (if first_tracked s1 = None then s1\<lparr>first_tracked := Some now\<rparr> else s1);
          s3 = (if total_active > peak_active_calls s2
                then s2\<lparr>peak_active_calls := total_active\<rparr> else s2)
      in foldl (track_call fromisoformat) s3 new_calls)"

section \<open>The persisted files\<close>

text \<open>
  The files under \<^verbatim>\<open>data/\<close> and \<^verbatim>\<open>analysis/\<close> as the scripts read them back:
  \<open>None\<close> is a file that does not exist. The JSON files hold what an earlier run wrote
  (well-formed content); the archive directory maps a date string \<open>d\<close> to the content of
  \<^verbatim>\<open>archive/d.json\<close>; the log is its text.
\<close>

record snapshot =
  calls :: "call list"
  timestamp :: "string option"
  count :: "nat option"

record archive_entry =
  entry_timestamp :: string
  call_count :: nat
  entry_calls :: "call list"

record archive_data =
  date :: string
  snapshots :: "archive_entry list"

record files =
  current_calls_file :: "snapshot option"
  historical_log_file :: "string option"
  archive_dir :: "string \<rightharpoonup> archive_data"
  stats_file :: "stats option"
  github_output_file :: "string option"

section \<open>The Fetcher: \<^verbatim>\<open>fetch_active_calls\<close>\<close>

text \<open>
  The Python exceptions that the scripts can raise and do not catch.
\<close>

datatype py_exception = ValueError | TypeError | AttributeError

text \<open>
  The outcome of the request. \<^verbatim>\<open>requests.get\<close> and \<^verbatim>\<open>raise_for_status\<close> raise
  subclasses of \<^verbatim>\<open>requests.RequestException\<close>; so does \<^verbatim>\<open>response.json\<close> from
  requests 2.27 on (\<^verbatim>\<open>requests.exceptions.JSONDecodeError\<close>). \<open>RaisedOther\<close> is an
  exception that is no \<^verbatim>\<open>RequestException\<close>, such as the \<^verbatim>\<open>ValueError\<close> that
  \<^verbatim>\<open>response.json\<close> of an older requests raises on a malformed body.

  A JSON value, as far as the pipeline tells values apart: \<open>null\<close>, a number or boolean
  (\<open>Atom\<close>), a string, an array of records, or an object, given by its keys. A parsed
  body is an object with a \<^verbatim>\<open>data\<close> entry, a bare array of records, or anything else.
\<close>

datatype request_exception = ConnectionError | Timeout | HTTPError | JSONDecodeError

datatype json_value = Null | Atom | Text string | Records "call list" | Object "string list"

datatype payload = WithData json_value | Array "call list" | OtherShape

datatype http_result = Raised request_exception | RaisedOther py_exception | Body payload

text \<open>
  \<^verbatim>\<open>fetch_active_calls\<close> returns the \<^verbatim>\<open>data\<close> entry as it is, \<open>None\<close> (here \<open>Null\<close>)
  after a \<^verbatim>\<open>RequestException\<close>, and lets any other exception through (\<open>Inl\<close>).
\<close>

definition fetch_active_calls :: "http_result \<Rightarrow> py_exception + json_value" where
  "fetch_active_calls r =
     (case r of
        Body data \<Rightarrow>
          Inr (case data of WithData v \<Rightarrow> v | Array cs \<Rightarrow> Records cs | OtherShape \<Rightarrow> Records [])
      | Raised e \<Rightarrow> Inr Null
      | RaisedOther e \<Rightarrow> Inl e)"

text \<open>
  What \<^verbatim>\<open>len\<close> and the loops over the fetched value make of it: a number or boolean has
  no \<^verbatim>\<open>len\<close>; a non-empty string or object has elements that are strings, without
  \<^verbatim>\<open>get\<close>; an empty string or object has length 0 and no element, like the empty
  list, and the model writes the empty list where the run writes that value.
\<close>

definition as_records :: "json_value \<Rightarrow> py_exception + call list" where
  "as_records v =
     (case v of
        Null \<Rightarrow> Inl TypeError
      | Atom \<Rightarrow> Inl TypeError
      | Text s \<Rightarrow> (if s = [] then Inr [] else Inl AttributeError)
      | Records cs \<Rightarrow> Inr cs
      | Object ks \<Rightarrow> (if ks = [] then Inr [] else Inl AttributeError))"

section \<open>The Snapshot Store\<close>

definition load_previous_calls :: "files \<Rightarrow> snapshot" where
  "load_previous_calls fs =
     (case current_calls_file fs of
        Some d \<Rightarrow> d
      | None \<Rightarrow> \<lparr>calls = [], timestamp = None, count = None\<rparr>)"

definition save_current_calls :: "call list \<Rightarrow> string \<Rightarrow> files \<Rightarrow> files" where
  "save_current_calls cs ts fs =
     fs\<lparr>current_calls_file := Some \<lparr>calls = cs, timestamp = Some ts, count = Some (length cs)\<rparr>\<rparr>"

section \<open>The Historical Log Writer: \<^verbatim>\<open>append_to_log\<close>\<close>

definition rule80 :: string where
  "rule80 = replicate 80 (CHR ''='')"

definition append_to_log ::
  "(string \<Rightarrow> datetime option) \<Rightarrow> string \<Rightarrow> call list \<Rightarrow> call list \<Rightarrow> nat \<Rightarrow> files \<Rightarrow> files" where
  "append_to_log fromisoformat ts new_calls resolved_calls total_active fs =
     (let old = (case historical_log_file fs of None \<Rightarrow> [] | Some t \<Rightarrow> t);
          header = nl @ rule80 @ nl @ ''TIMESTAMP: '' @ ts @ nl
                     @ ''TOTAL ACTIVE CALLS: '' @ str_nat total_active @ nl @ rule80 @ nl;
          new_part =
            (if new_calls \<noteq> [] then
               nl @ ''--- NEW CALLS ('' @ str_nat (length new_calls) @ '') ---'' @ nl
                 @ concat (map (\<lambda>c. format_call_for_log fromisoformat c ''NEW'' @ nl) new_calls)
             else []);
          resolved_part =
            (if resolved_calls \<noteq> [] then
               nl @ ''--- RESOLVED CALLS ('' @ str_nat (length resolved_calls) @ '') ---'' @ nl
                 @ concat (map (\<lambda>c. format_call_for_log fromisoformat c ''RESOLVED'' @ nl)
                     resolved_calls)
             else []);
          none_part =
            (if new_calls = [] \<and> resolved_calls = []
             then nl @ ''No changes since last check.'' @ nl else [])
      in fs\<lparr>historical_log_file := Some (old @ header @ new_part @ resolved_part @ none_part)\<rparr>)"

section \<open>The Archiver: \<^verbatim>\<open>archive_daily_data\<close>\<close>

text \<open>\<open>date_str\<close> is the local calendar date of the run, \<^verbatim>\<open>datetime.now().strftime('%Y-%m-%d')\<close>.\<close>

definition archive_daily_data :: "call list \<Rightarrow> string \<Rightarrow> string \<Rightarrow> files \<Rightarrow> files" where
  "archive_daily_data cs ts date_str fs =
     (let archive_data =
            (case archive_dir fs date_str of
               Some a \<Rightarrow> a
             | None \<Rightarrow> \<lparr>date = date_str, snapshots = []\<rparr>);
          archive_data' =
            archive_data\<lparr>snapshots := snapshots archive_data
               @ [\<lparr>entry_timestamp = ts, call_count = length cs, entry_calls = cs\<rparr>]\<rparr>
      in fs\<lparr>archive_dir := (archive_dir fs)(date_str \<mapsto> archive_data')\<rparr>)"

section \<open>\<^verbatim>\<open>update_stats\<close> on the stats file\<close>

text \<open>
  \<^verbatim>\<open>update_stats\<close> returns the stats it holds in memory and writes them to the stats
  file; the file is kept as the next run's \<^verbatim>\<open>json.load\<close> reads it.
\<close>

definition update_stats ::
  "(string \<Rightarrow> datetime option) \<Rightarrow> string \<Rightarrow> call list \<Rightarrow> call list \<Rightarrow> nat \<Rightarrow> files
     \<Rightarrow> stats \<times> files" where
  "update_stats fromisoformat now new_calls resolved_calls total_active fs =
     (let s = updated_stats fromisoformat now (stats_file fs) new_calls resolved_calls total_active
      in (s, fs\<lparr>stats_file := Some (json_stats s)\<rparr>))"

text \<open>A sequence of runs of the Stats Aggregator, each with its instant and its inputs.\<close>

record stats_run =
  run_now :: string
  run_new :: "call list"
  run_resolved :: "call list"
  run_total :: nat

definition stats_runs :: "(string \<Rightarrow> datetime option) \<Rightarrow> stats_run list \<Rightarrow> files \<Rightarrow> files" where
  "stats_runs fromisoformat runs fs =
     foldl (\<lambda>fs r. snd (update_stats fromisoformat (run_now r) (run_new r) (run_resolved r)
                          (run_total r) fs)) fs runs"

text \<open>The stats a run starts from: the file, or the default record when there is none.\<close>

definition current_stats :: "files \<Rightarrow> stats" where
  "current_stats fs = (case stats_file fs of Some s \<Rightarrow> s | None \<Rightarrow> default_stats)"

section \<open>The pipeline: \<^verbatim>\<open>main\<close> of \<^verbatim>\<open>fetch_active_calls.py\<close>\<close>

text \<open>
  What one run reads from outside the files: the outcome of the request, the instants of
  its calls of \<^verbatim>\<open>datetime.now\<close>, and whether \<^verbatim>\<open>GITHUB_OUTPUT\<close> is set. Standard
  output and the creation of the directories are not modelled. The result is the exit
  code of the process and the files after the run; an exception that nothing catches ends
  the process with exit code 1.
\<close>

record run_env =
  response :: http_result
  banner_time :: string
  fetch_time :: string
  local_date :: string
  stats_time :: string
  GITHUB_OUTPUT :: bool

definition log_banner :: "string \<Rightarrow> string" where
  "log_banner t =
     ''CLEARWATER PD ACTIVE CALLS - HISTORICAL LOG'' @ nl @ ''Tracking started: '' @ t @ nl
       @ rule80 @ nl"

definition main :: "(string \<Rightarrow> datetime option) \<Rightarrow> run_env \<Rightarrow> files \<Rightarrow> int \<times> files" where
  "main fromisoformat env fs =
     (let fs1 = (case historical_log_file fs of
                   None \<Rightarrow> fs\<lparr>historical_log_file := Some (log_banner (banner_time env))\<rparr>
                 | Some t \<Rightarrow> fs)
      in case fetch_active_calls (response env) of
           Inl e \<Rightarrow> (1, fs1)
         | Inr fetched \<Rightarrow>
             if fetched = Null then (1, fs1)
             else
               (case as_records fetched of
                  Inl e \<Rightarrow> (1, fs1)
                | Inr current_calls \<Rightarrow>
                    (let ts = fetch_time env;
                         previous_calls = calls (load_previous_calls fs1);
                         (new_calls, resolved_calls) = compare_calls previous_calls current_calls;
                         fs2 = append_to_log fromisoformat ts new_calls resolved_calls
                                 (length current_calls) fs1;
                         fs3 = save_current_calls current_calls ts fs2;
                         fs4 = archive_daily_data current_calls ts (local_date env) fs3;
                         (st, fs5) = update_stats fromisoformat (stats_time env) new_calls
                                       resolved_calls (length current_calls) fs4;
                         fs6 = (if GITHUB_OUTPUT env then
                                  fs5\<lparr>github_output_file := Some
                                    ((case github_output_file fs5 of None \<Rightarrow> [] | Some t \<Rightarrow> t)
                                       @ ''total_active='' @ str_nat (length current_calls) @ nl
                                       @ ''new_calls='' @ str_nat (length new_calls) @ nl
                                       @ ''resolved_calls='' @ str_nat (length resolved_calls) @ nl)\<rparr>
                                else fs5)
                     in (0, fs6))))"

section \<open>The Alert Evaluator: \<^verbatim>\<open>discord_alerts.py\<close>\<close>

text \<open>
  \<^verbatim>\<open>str.upper\<close> belongs to the Python library (it follows the Unicode case mapping); it
  is a parameter \<open>str_upper\<close> of every function that reaches it. \<open>is_in x y\<close> is the
  substring test \<^verbatim>\<open>x in y\<close> of two strings.
\<close>

fun is_in :: "'a list \<Rightarrow> 'a list \<Rightarrow> bool" where
  "is_in xs [] = (xs = [])"
| "is_in xs (y # ys) = (prefix xs (y # ys) \<or> is_in xs ys)"

definition ALERT_CALL_TYPES :: "string list" where
  "ALERT_CALL_TYPES =
     [''TRAFFIC STOP'', ''PEDESTRIAN STOP'', ''SUSPICIOUS PERSON'', ''SUSPICIOUS VEHICLE'']"

definition ALERT_ADDRESSES :: "string list" where
  "ALERT_ADDRESSES = []"


record alert =
  title :: string
  description :: string
  color :: nat


definition pin :: string where
  "pin = map char_of [0xF0, 0x9F, 0x93, 0x8D :: nat]"


definition type_alert :: "string \<Rightarrow> jval \<Rightarrow> jval \<Rightarrow> alert" where
  "type_alert call_type address incident =
     \<lparr>title = pin @ '' '' @ call_type,
      description = ''**Location:** '' @ py_str address @ nl @ ''**Incident:** '' @ py_str incident,
      color = 0xFFA500\<rparr>"

definition address_alert :: "string \<Rightarrow> jval \<Rightarrow> jval \<Rightarrow> alert" where
  "address_alert call_type address incident =
     \<lparr>title = pin @ '' Activity at Watched Location'',
      description = ''**Type:** '' @ call_type @ nl @ ''**Location:** '' @ py_str address @ nl
                      @ ''**Incident:** '' @ py_str incident,
      color = 0xFFFF00\<rparr>"

text \<open>
  The loop over the watched call types: the first entry found in the upper-cased
  description appends one alert and leaves the loop.
\<close>

fun type_alerts :: "string list \<Rightarrow> string \<Rightarrow> jval \<Rightarrow> jval \<Rightarrow> alert list" where
  "type_alerts [] call_type address incident = []"
| "type_alerts (alert_type # rest) call_type address incident =
     (if is_in alert_type call_type then [type_alert call_type address incident]
      else type_alerts rest call_type address incident)"

text \<open>
  The loop over the watched addresses calls \<^verbatim>\<open>address.upper()\<close> at each entry, which
  raises \<^verbatim>\<open>AttributeError\<close> when the address is not a string.
\<close>

fun address_alerts ::
  "(string \<Rightarrow> string) \<Rightarrow> string list \<Rightarrow> string \<Rightarrow> jval \<Rightarrow> jval \<Rightarrow> py_exception + alert list" where
  "address_alerts str_upper [] call_type address incident = Inr []"
| "address_alerts str_upper (alert_addr # rest) call_type address incident =
     (case address of
        JStr a \<Rightarrow>
          (if is_in (str_upper alert_addr) (str_upper a)
           then Inr [address_alert call_type address incident]
           else address_alerts str_upper rest call_type address incident)
      | _ \<Rightarrow> Inl AttributeError)"

text \<open>
  The body of the loop over the calls. \<^verbatim>\<open>call.get('Online_Description', '').upper()\<close>
  raises \<^verbatim>\<open>AttributeError\<close> when the description is not a string.
\<close>

definition call_alerts :: "(string \<Rightarrow> string) \<Rightarrow> call \<Rightarrow> py_exception + alert list" where
  "call_alerts str_upper c =
     (case get_default c ''Online_Description'' (JStr []) of
        JStr d \<Rightarrow>
          (let call_type = str_upper d;
               address = get_default c ''Address'' (JStr []);
               incident = get_default c ''Master_Incident_Number'' (JStr []);
               by_type = type_alerts ALERT_CALL_TYPES call_type address incident
           in case address_alerts str_upper ALERT_ADDRESSES call_type address incident of
                Inl e \<Rightarrow> Inl e
              | Inr by_address \<Rightarrow> Inr (by_type @ by_address))
      | _ \<Rightarrow> Inl AttributeError)"







text \<open>A sample \<open>str_upper\<close>: \<^verbatim>\<open>str.upper\<close> as it acts on ASCII text.\<close>

definition upper_char :: "char \<Rightarrow> char" where
  "upper_char c =
     (case map_of (zip ''abcdefghijklmnopqrstuvwxyz'' ''ABCDEFGHIJKLMNOPQRSTUVWXYZ'') c of
        Some u \<Rightarrow> u
      | None \<Rightarrow> c)"

definition ascii_upper :: "string \<Rightarrow> string" where
  "ascii_upper s = map upper_char s"

section \<open>Notions used to state the properties\<close>

text \<open>The sum of all counts of a frequency table, \<^verbatim>\<open>sum(d.values())\<close>.\<close>

definition tally :: "('k \<times> nat) list \<Rightarrow> nat" where
  "tally d = sum_list (map snd d)"

text \<open>No file exists yet: the state before the first run.\<close>

definition no_files :: files where
  "no_files =
     \<lparr>current_calls_file = None, historical_log_file = None, archive_dir = Map.empty,
      stats_file = None, github_output_file = None\<rparr>"

text \<open>A field value that is a string, and a field that is a string or absent.\<close>

definition is_text :: "jval \<Rightarrow> bool" where
  "is_text v = (case v of JStr s \<Rightarrow> True | _ \<Rightarrow> False)"

definition text_field :: "call \<Rightarrow> string \<Rightarrow> bool" where
  "text_field c k = (case map_of c k of None \<Rightarrow> True | Some v \<Rightarrow> is_text v)"

text \<open>A frequency table as \<^verbatim>\<open>json.load\<close> returns it: distinct keys, all strings.\<close>

definition text_keyed :: "(jval \<times> nat) list \<Rightarrow> bool" where
  "text_keyed d = (distinct (map fst d) \<and> list_all (\<lambda>p. is_text (fst p)) d)"

definition text_tables :: "stats \<Rightarrow> bool" where
  "text_tables s = (text_keyed (call_types s) \<and> text_keyed (addresses s))"

text \<open>
  The balance of the stats: the per-description counts and the per-address counts each
  sum to \<open>total_calls_tracked\<close>, and the hour buckets sum to at most that.
\<close>

definition stats_balanced :: "stats \<Rightarrow> bool" where
  "stats_balanced s =
     (tally (call_types s) = total_calls_tracked s
      \<and> tally (addresses s) = total_calls_tracked s
      \<and> tally (hourly_distribution s) \<le> total_calls_tracked s)"

text \<open>The response time of the record fails to parse.\<close>

definition unparsed :: "(string \<Rightarrow> datetime option) \<Rightarrow> call \<Rightarrow> bool" where
  "unparsed fromisoformat c =
     (parse_response_date fromisoformat (get_default c ''Response_Date'' (JStr [])) = None)"

text \<open>
  Sample inputs: a parser that reads the one timestamp of the comment in
  \<^verbatim>\<open>parse_response_date\<close>, two records, and two runs of the Stats Aggregator.
\<close>

definition iso_basic :: "string \<Rightarrow> datetime option" where
  "iso_basic s = (if s = ''2024-01-15T14:30:00'' then Some \<lparr>hour = 14, minute = 30\<rparr> else None)"

definition undated_call :: call where
  "undated_call =
     [(''Master_Incident_Number'', JStr ''A1''), (''Online_Description'', JStr ''TRAFFIC STOP''),
      (''Address'', JStr ''100 CLEVELAND ST''), (''Response_Date'', JStr ''not-a-date'')]"

definition dated_call :: call where
  "dated_call =
     [(''Master_Incident_Number'', JStr ''B2''), (''Online_Description'', JStr ''ARMED ROBBERY''),
      (''Address'', JStr ''100 CLEVELAND ST''), (''Response_Date'', JStr ''2024-01-15T14:30:00'')]"

definition text_run :: stats_run where
  "text_run = \<lparr>run_now = ''2024-01-15T14:31:07+00:00'', run_new = [undated_call, dated_call],
                run_resolved = [], run_total = 2\<rparr>"

definition null_run :: stats_run where
  "null_run = \<lparr>run_now = ''2024-01-15T14:31:07+00:00'',
                run_new = [[(''Master_Incident_Number'', JStr ''A1''), (''Online_Description'', JNull)]],
                run_resolved = [], run_total = 1\<rparr>"



text \<open>
  More sample inputs: a second run with a \<open>null\<close> description, the environment of a run
  whose request times out, a record that the type rule matches, and a snapshot of twelve
  such records.
\<close>

definition null_rerun :: stats_run where
  "null_rerun = \<lparr>run_now = ''2024-01-15T14:36:07+00:00'',
                  run_new = [[(''Master_Incident_Number'', JStr ''B2''), (''Online_Description'', JNull)]],
                  run_resolved = [], run_total = 2\<rparr>"

definition sample_env :: run_env where
  "sample_env =
     \<lparr>response = Raised Timeout, banner_time = ''2024-01-15T14:31:05+00:00'',
      fetch_time = ''2024-01-15T14:31:06+00:00'', local_date = ''2024-01-15'',
      stats_time = ''2024-01-15T14:31:07+00:00'', GITHUB_OUTPUT = False\<rparr>"

definition stop_call :: call where
  "stop_call =
     [(''Master_Incident_Number'', JStr ''A1''), (''Online_Description'', JStr ''Traffic Stop''),
      (''Address'', JStr ''100 CLEVELAND ST''), (''Response_Date'', JStr ''2024-01-15T14:30:00'')]"



section \<open>Properties of the Differ\<close>

lemma filter_diff_ids:
  "filter (\<lambda>c. f c \<in> f ` set xs \<and> f c \<notin> A) xs = filter (\<lambda>c. f c \<notin> A) xs"
  by (rule filter_cong) auto

text \<open>
  Claim C2. The new records are exactly the current records whose incident identifier
  does not occur among the identifiers of the previous records, the resolved records are
  exactly the previous records whose identifier does not occur among the identifiers of
  the current records, and each result keeps the order of the sequence it is taken from.
\<close>

theorem compare_calls_exact:
  "compare_calls previous_calls current_calls =
     (filter (\<lambda>c. incident_id c \<notin> incident_id ` set previous_calls) current_calls,
      filter (\<lambda>c. incident_id c \<notin> incident_id ` set current_calls) previous_calls)"
  by (simp add: compare_calls_def Let_def filter_diff_ids)

theorem compare_calls_exact_witness:
  "compare_calls
     [[(''Master_Incident_Number'', JStr ''Z9'')], [(''Master_Incident_Number'', JStr ''A1'')]]
     [[(''Master_Incident_Number'', JStr ''C3'')], [(''Master_Incident_Number'', JStr ''A1'')],
      [(''Master_Incident_Number'', JStr ''B2'')]]
   = ([[(''Master_Incident_Number'', JStr ''C3'')], [(''Master_Incident_Number'', JStr ''B2'')]],
      [[(''Master_Incident_Number'', JStr ''Z9'')]])"
  by (simp add: compare_calls_exact incident_id_def get_def)

text \<open>
  Claim C9. A record without the incident-identifier key carries the identifier \<open>None\<close>,
  the same for all such records; when both the previous and the current sequence hold a
  record without the key, no record without the key is reported as new or as resolved.
\<close>

theorem compare_calls_keyless:
  assumes "\<exists>p \<in> set previous_calls. keyless p" and "\<exists>c \<in> set current_calls. keyless c"
  shows "(\<forall>c. keyless c \<longrightarrow> incident_id c = JNull)
       \<and> (\<forall>r \<in> set (fst (compare_calls previous_calls current_calls)). \<not> keyless r)
       \<and> (\<forall>r \<in> set (snd (compare_calls previous_calls current_calls)). \<not> keyless r)"
proof -
  have null: "incident_id c = JNull" if "keyless c" for c
    using that by (simp add: keyless_def incident_id_def get_def)
  from assms obtain p c where p: "p \<in> set previous_calls" "keyless p"
    and c: "c \<in> set current_calls" "keyless c" by blast
  have "JNull \<in> incident_id ` set previous_calls"
    using p null by force
  moreover have "JNull \<in> incident_id ` set current_calls"
    using c null by force
  ultimately show ?thesis
    using null by (auto simp: compare_calls_def Let_def)
qed

theorem compare_calls_keyless_witness:
  "(\<exists>p \<in> set [[(''Address'', JStr ''1 MAIN ST'')], [(''Master_Incident_Number'', JStr ''A1'')]].
      keyless p)
   \<and> (\<exists>c \<in> set [[(''Address'', JStr ''9 BAY AVE'')], [(''Master_Incident_Number'', JStr ''B2'')]].
      keyless c)
   \<and> list_all (\<lambda>r. \<not> keyless r)
        (fst (compare_calls
          [[(''Address'', JStr ''1 MAIN ST'')], [(''Master_Incident_Number'', JStr ''A1'')]]
          [[(''Address'', JStr ''9 BAY AVE'')], [(''Master_Incident_Number'', JStr ''B2'')]]))
   \<and> list_all (\<lambda>r. \<not> keyless r)
        (snd (compare_calls
          [[(''Address'', JStr ''1 MAIN ST'')], [(''Master_Incident_Number'', JStr ''A1'')]]
          [[(''Address'', JStr ''9 BAY AVE'')], [(''Master_Incident_Number'', JStr ''B2'')]]))"
proof -
  have a: "\<exists>p \<in> set [[(''Address'', JStr ''1 MAIN ST'')], [(''Master_Incident_Number'', JStr ''A1'')]].
             keyless p"
    by (simp add: keyless_def)
  have b: "\<exists>c \<in> set [[(''Address'', JStr ''9 BAY AVE'')], [(''Master_Incident_Number'', JStr ''B2'')]].
             keyless c"
    by (simp add: keyless_def)
  show ?thesis
    using a b compare_calls_keyless [OF a b] unfolding list_all_iff by blast
qed

section \<open>Properties of the Stats Aggregator: counters and peak\<close>

lemma foldl_track_scalars:
  "total_calls_tracked (foldl (track_call fromiso) s cs) = total_calls_tracked s
 \<and> total_resolved (foldl (track_call fromiso) s cs) = total_resolved s
 \<and> first_tracked (foldl (track_call fromiso) s cs) = first_tracked s
 \<and> last_updated (foldl (track_call fromiso) s cs) = last_updated s
 \<and> peak_active_calls (foldl (track_call fromiso) s cs) = peak_active_calls s
 \<and> total_snapshots (foldl (track_call fromiso) s cs) = total_snapshots s"
  by (induction cs arbitrary: s) (auto simp: track_call_def Let_def split: option.splits)

lemma json_stats_scalars:
  "total_calls_tracked (json_stats s) = total_calls_tracked s
 \<and> total_resolved (json_stats s) = total_resolved s
 \<and> first_tracked (json_stats s) = first_tracked s
 \<and> last_updated (json_stats s) = last_updated s
 \<and> peak_active_calls (json_stats s) = peak_active_calls s
 \<and> total_snapshots (json_stats s) = total_snapshots s
 \<and> hourly_distribution (json_stats s) = hourly_distribution s"
  by (simp add: json_stats_def)

lemma updated_stats_scalars:
  "total_calls_tracked (updated_stats fromiso now file new resolved active)
     = total_calls_tracked (case file of Some s \<Rightarrow> s | None \<Rightarrow> default_stats) + length new
 \<and> total_resolved (updated_stats fromiso now file new resolved active)
     = total_resolved (case file of Some s \<Rightarrow> s | None \<Rightarrow> default_stats) + length resolved
 \<and> total_snapshots (updated_stats fromiso now file new resolved active)
     = total_snapshots (case file of Some s \<Rightarrow> s | None \<Rightarrow> default_stats) + 1
 \<and> last_updated (updated_stats fromiso now file new resolved active) = Some now
 \<and> first_tracked (updated_stats fromiso now file new resolved active)
     = (if first_tracked (case file of Some s \<Rightarrow> s | None \<Rightarrow> default_stats) = None then Some now
        else first_tracked (case file of Some s \<Rightarrow> s | None \<Rightarrow> default_stats))
 \<and> peak_active_calls (updated_stats fromiso now file new resolved active)
     = max (peak_active_calls (case file of Some s \<Rightarrow> s | None \<Rightarrow> default_stats)) active"
  unfolding updated_stats_def Let_def
  by (simp add: foldl_track_scalars max_def)

lemma current_stats_update:
  "current_stats (snd (update_stats fromiso now new resolved active fs))
     = json_stats (updated_stats fromiso now (stats_file fs) new resolved active)"
  by (simp add: update_stats_def current_stats_def Let_def)

lemma fst_update_stats:
  "fst (update_stats fromiso now new resolved active fs)
     = updated_stats fromiso now (stats_file fs) new resolved active"
  by (simp add: update_stats_def Let_def)

text \<open>
  Claim C4. One run of the Stats Aggregator adds the number of new records to
  \<open>total_calls_tracked\<close>, the number of resolved records to \<open>total_resolved\<close> and one to
  \<open>total_snapshots\<close>, sets \<open>last_updated\<close> to the current instant, and sets
  \<open>first_tracked\<close> to the current instant only when it was unset. This holds of the
  stats the run returns and of the stats file it leaves.
\<close>

theorem update_stats_counters:
  "total_calls_tracked (fst (update_stats fromiso now new_calls resolved_calls total_active fs))
     = total_calls_tracked (current_stats fs) + length new_calls
 \<and> total_resolved (fst (update_stats fromiso now new_calls resolved_calls total_active fs))
     = total_resolved (current_stats fs) + length resolved_calls
 \<and> total_snapshots (fst (update_stats fromiso now new_calls resolved_calls total_active fs))
     = total_snapshots (current_stats fs) + 1
 \<and> last_updated (fst (update_stats fromiso now new_calls resolved_calls total_active fs)) = Some now
 \<and> first_tracked (fst (update_stats fromiso now new_calls resolved_calls total_active fs))
     = (if first_tracked (current_stats fs) = None then Some now else first_tracked (current_stats fs))
 \<and> total_calls_tracked (current_stats (snd (update_stats fromiso now new_calls resolved_calls total_active fs)))
     = total_calls_tracked (current_stats fs) + length new_calls
 \<and> total_resolved (current_stats (snd (update_stats fromiso now new_calls resolved_calls total_active fs)))
     = total_resolved (current_stats fs) + length resolved_calls
 \<and> total_snapshots (current_stats (snd (update_stats fromiso now new_calls resolved_calls total_active fs)))
     = total_snapshots (current_stats fs) + 1
 \<and> last_updated (current_stats (snd (update_stats fromiso now new_calls resolved_calls total_active fs)))
     = Some now
 \<and> first_tracked (current_stats (snd (update_stats fromiso now new_calls resolved_calls total_active fs)))
     = (if first_tracked (current_stats fs) = None then Some now else first_tracked (current_stats fs))"
  unfolding current_stats_update fst_update_stats
  by (simp add: json_stats_scalars updated_stats_scalars current_stats_def)

theorem update_stats_counters_witness:
  "total_calls_tracked (fst (update_stats (\<lambda>s. None) ''2024-01-15T14:31:07+00:00''
       [[(''Master_Incident_Number'', JStr ''A1'')], [(''Master_Incident_Number'', JStr ''B2'')]]
       [[(''Master_Incident_Number'', JStr ''C3'')]] 2 no_files)) = 2
 \<and> total_resolved (fst (update_stats (\<lambda>s. None) ''2024-01-15T14:31:07+00:00''
       [[(''Master_Incident_Number'', JStr ''A1'')], [(''Master_Incident_Number'', JStr ''B2'')]]
       [[(''Master_Incident_Number'', JStr ''C3'')]] 2 no_files)) = 1
 \<and> total_snapshots (fst (update_stats (\<lambda>s. None) ''2024-01-15T14:31:07+00:00''
       [[(''Master_Incident_Number'', JStr ''A1'')], [(''Master_Incident_Number'', JStr ''B2'')]]
       [[(''Master_Incident_Number'', JStr ''C3'')]] 2 no_files)) = 1
 \<and> first_tracked (fst (update_stats (\<lambda>s. None) ''2024-01-15T14:31:07+00:00''
       [[(''Master_Incident_Number'', JStr ''A1'')], [(''Master_Incident_Number'', JStr ''B2'')]]
       [[(''Master_Incident_Number'', JStr ''C3'')]] 2 no_files)) = Some ''2024-01-15T14:31:07+00:00''"
  using update_stats_counters [of "\<lambda>s. None" "''2024-01-15T14:31:07+00:00''"
      "[[(''Master_Incident_Number'', JStr ''A1'')], [(''Master_Incident_Number'', JStr ''B2'')]]"
      "[[(''Master_Incident_Number'', JStr ''C3'')]]" 2 no_files]
  by (simp add: current_stats_def no_files_def default_stats_def)

lemma peak_after_run:
  "peak_active_calls (current_stats (snd (update_stats fromiso now new resolved active fs)))
     = max (peak_active_calls (current_stats fs)) active"
  unfolding current_stats_update
  by (simp add: json_stats_scalars updated_stats_scalars current_stats_def)

lemma stats_runs_snoc:
  "stats_runs fromiso (runs @ [r]) fs
     = snd (update_stats fromiso (run_now r) (run_new r) (run_resolved r) (run_total r)
              (stats_runs fromiso runs fs))"
  by (simp add: stats_runs_def)

lemma stats_runs_Nil: "stats_runs fromiso [] fs = fs"
  by (simp add: stats_runs_def)

lemma peak_after_runs:
  "peak_active_calls (current_stats (stats_runs fromiso runs fs))
     = Max (set (peak_active_calls (current_stats fs) # map run_total runs))"
proof (induction runs rule: rev_induct)
  case Nil
  show ?case by (simp add: stats_runs_Nil)
next
  case (snoc r runs)
  have "Max (set (peak_active_calls (current_stats fs) # map run_total (runs @ [r])))
      = max (run_total r) (Max (set (peak_active_calls (current_stats fs) # map run_total runs)))"
    by (simp add: insert_commute)
  then show ?case
    using snoc by (simp add: stats_runs_snoc peak_after_run max.commute)
qed

text \<open>
  Claim C3. After any sequence of runs that starts without a stats file (the default
  stats), \<open>peak_active_calls\<close> is the maximum of the active-call counts of the runs so
  far (0 before the first run), and one more run never lowers it.
\<close>

theorem peak_is_maximum:
  assumes "stats_file fs = None"
  shows "peak_active_calls (current_stats (stats_runs fromiso runs fs))
           = Max (set (0 # map run_total runs))
       \<and> peak_active_calls (current_stats (stats_runs fromiso runs fs))
           \<le> peak_active_calls (current_stats (stats_runs fromiso (runs @ [r]) fs))"
proof -
  have "peak_active_calls (current_stats fs) = 0"
    using assms by (simp add: current_stats_def default_stats_def)
  then show ?thesis
    using peak_after_runs [of fromiso runs fs]
    by (simp add: stats_runs_snoc peak_after_run)
qed

theorem peak_is_maximum_witness:
  "stats_file no_files = None
 \<and> peak_active_calls (current_stats (stats_runs (\<lambda>s. None)
       [\<lparr>run_now = ''t1'', run_new = [], run_resolved = [], run_total = 3\<rparr>,
        \<lparr>run_now = ''t2'', run_new = [], run_resolved = [], run_total = 7\<rparr>,
        \<lparr>run_now = ''t3'', run_new = [], run_resolved = [], run_total = 5\<rparr>] no_files)) = 7"
proof -
  have a: "stats_file no_files = None"
    by (simp add: no_files_def)
  show ?thesis
    using a peak_is_maximum [OF a, of "\<lambda>s. None"
      "[\<lparr>run_now = ''t1'', run_new = [], run_resolved = [], run_total = 3\<rparr>,
        \<lparr>run_now = ''t2'', run_new = [], run_resolved = [], run_total = 7\<rparr>,
        \<lparr>run_now = ''t3'', run_new = [], run_resolved = [], run_total = 5\<rparr>]"]
    by simp
qed

section \<open>Properties of the frequency tables\<close>

lemma dict_get_set:
  "dict_get (dict_set d k v) k' x = (if k' = k then v else dict_get d k' x)"
  by (induction d) auto

lemma tally_bump: "tally (dict_set d k (Suc (dict_get d k 0))) = Suc (tally d)"
  by (induction d) (auto simp: tally_def)

lemma keys_dict_set: "set (map fst (dict_set d k v)) = insert k (set (map fst d))"
proof (induction d)
  case Nil
  show ?case by simp
next
  case (Cons p d)
  obtain k' v' where p: "p = (k', v')" by (cases p)
  show ?case
  proof (cases "k' = k")
    case True
    with p show ?thesis by simp
  next
    case False
    have "set (map fst (dict_set (p # d) k v)) = insert k' (set (map fst (dict_set d k v)))"
      using p False by simp
    also have "\<dots> = insert k' (insert k (set (map fst d)))"
      by (simp only: Cons.IH)
    finally show ?thesis using p by (simp add: insert_commute)
  qed
qed

lemma distinct_dict_set: "distinct (map fst d) \<Longrightarrow> distinct (map fst (dict_set d k v))"
proof (induction d)
  case Nil
  show ?case by simp
next
  case (Cons p d)
  obtain k' v' where p: "p = (k', v')" by (cases p)
  show ?case
  proof (cases "k' = k")
    case True
    with Cons.prems p show ?thesis by simp
  next
    case False
    have "k' \<notin> set (map fst (dict_set d k v))"
      using Cons.prems p False unfolding keys_dict_set by simp
    with Cons p False show ?thesis by simp
  qed
qed

lemma dict_set_fresh: "k \<notin> fst ` set d \<Longrightarrow> dict_set d k v = d @ [(k, v)]"
  by (induction d) auto

lemma json_key_text: "is_text k \<Longrightarrow> JStr (json_key k) = k"
  by (cases k) (simp_all add: is_text_def json_key_def)

lemma json_fold_text:
  "distinct (map fst (acc @ d)) \<Longrightarrow> list_all (\<lambda>p. is_text (fst p)) d \<Longrightarrow>
   foldl (\<lambda>acc (k, v). dict_set acc (JStr (json_key k)) v) acc d = acc @ d"
proof (induction d arbitrary: acc)
  case Nil
  then show ?case by simp
next
  case (Cons p d)
  obtain k v where p: "p = (k, v)" by (cases p)
  have k: "JStr (json_key k) = k" using Cons.prems(2) p by (simp add: json_key_text)
  have fresh: "k \<notin> fst ` set acc" using Cons.prems(1) p by auto
  have "distinct (map fst ((acc @ [(k, v)]) @ d))" using Cons.prems(1) p by simp
  moreover have "list_all (\<lambda>p. is_text (fst p)) d" using Cons.prems(2) by simp
  ultimately have "foldl (\<lambda>acc (k, v). dict_set acc (JStr (json_key k)) v) (acc @ [(k, v)]) d
      = (acc @ [(k, v)]) @ d"
    by (rule Cons.IH)
  then show ?case
    using p k fresh by (simp add: dict_set_fresh)
qed

lemma json_table_text: "text_keyed d \<Longrightarrow> json_table d = d"
  using json_fold_text [of "[]" d] by (simp add: json_table_def text_keyed_def)

lemma text_keyed_iff:
  "text_keyed d \<longleftrightarrow> distinct (map fst d) \<and> (\<forall>k \<in> set (map fst d). is_text k)"
  by (auto simp: text_keyed_def list_all_iff)

lemma text_keyed_set: "text_keyed d \<Longrightarrow> is_text k \<Longrightarrow> text_keyed (dict_set d k v)"
  unfolding text_keyed_iff keys_dict_set
  by (simp add: distinct_dict_set)

lemma track_call_tables:
  "call_types (track_call fromiso s c)
     = dict_set (call_types s) (get_default c ''Online_Description'' (JStr ''Unknown''))
         (dict_get (call_types s) (get_default c ''Online_Description'' (JStr ''Unknown'')) 0 + 1)
 \<and> addresses (track_call fromiso s c)
     = dict_set (addresses s) (get_default c ''Address'' (JStr ''Unknown''))
         (dict_get (addresses s) (get_default c ''Address'' (JStr ''Unknown'')) 0 + 1)
 \<and> total_calls_tracked (track_call fromiso s c) = total_calls_tracked s"
  by (simp add: track_call_def Let_def split: option.splits)

lemma track_call_hourly:
  "hourly_distribution (track_call fromiso s c)
     = (case parse_response_date fromiso (get_default c ''Response_Date'' (JStr [])) of
          None \<Rightarrow> hourly_distribution s
        | Some t \<Rightarrow> dict_set (hourly_distribution s) (str_nat (hour t))
                     (dict_get (hourly_distribution s) (str_nat (hour t)) 0 + 1))"
  by (simp add: track_call_def Let_def split: option.splits)

lemma track_call_tally:
  "tally (call_types (track_call fromiso s c)) = tally (call_types s) + 1
 \<and> tally (addresses (track_call fromiso s c)) = tally (addresses s) + 1
 \<and> tally (hourly_distribution (track_call fromiso s c))
     = tally (hourly_distribution s) + (if unparsed fromiso c then 0 else 1)"
  by (auto simp: track_call_tables track_call_hourly tally_bump unparsed_def split: option.splits)

lemma foldl_track_tally:
  "tally (call_types (foldl (track_call fromiso) s cs)) = tally (call_types s) + length cs
 \<and> tally (addresses (foldl (track_call fromiso) s cs)) = tally (addresses s) + length cs
 \<and> tally (hourly_distribution (foldl (track_call fromiso) s cs))
     = tally (hourly_distribution s) + length (filter (\<lambda>c. \<not> unparsed fromiso c) cs)"
  by (induction cs arbitrary: s) (simp_all add: track_call_tally)

lemma get_default_text:
  "text_field c k \<Longrightarrow> is_text (get_default c k (JStr d))"
  by (simp add: text_field_def get_default_def is_text_def split: option.splits)

lemma track_call_text_keyed:
  assumes "text_field c ''Online_Description''" "text_field c ''Address''"
    and "text_keyed (call_types s)" "text_keyed (addresses s)"
  shows "text_keyed (call_types (track_call fromiso s c))
       \<and> text_keyed (addresses (track_call fromiso s c))"
  using assms by (simp add: track_call_tables text_keyed_set get_default_text)

lemma foldl_track_text_keyed:
  assumes "list_all (\<lambda>c. text_field c ''Online_Description'' \<and> text_field c ''Address'') cs"
    and "text_keyed (call_types s)" "text_keyed (addresses s)"
  shows "text_keyed (call_types (foldl (track_call fromiso) s cs))
       \<and> text_keyed (addresses (foldl (track_call fromiso) s cs))"
  using assms by (induction cs arbitrary: s) (simp_all add: track_call_text_keyed)


lemma default_stats_balanced: "stats_balanced default_stats"
  by (simp add: stats_balanced_def default_stats_def tally_def comp_def)

lemma json_stats_text:
  "text_keyed (call_types s) \<Longrightarrow> text_keyed (addresses s) \<Longrightarrow> json_stats s = s"
  by (simp add: json_stats_def json_table_text)

lemma updated_stats_tally:
  "tally (call_types (updated_stats fromiso now file new resolved active))
     = tally (call_types (case file of Some s \<Rightarrow> s | None \<Rightarrow> default_stats)) + length new
 \<and> tally (addresses (updated_stats fromiso now file new resolved active))
     = tally (addresses (case file of Some s \<Rightarrow> s | None \<Rightarrow> default_stats)) + length new
 \<and> tally (hourly_distribution (updated_stats fromiso now file new resolved active))
     = tally (hourly_distribution (case file of Some s \<Rightarrow> s | None \<Rightarrow> default_stats))
         + length (filter (\<lambda>c. \<not> unparsed fromiso c) new)"
  unfolding updated_stats_def Let_def
  by (simp add: foldl_track_tally)

lemma updated_stats_balanced:
  assumes "stats_balanced (case file of Some s \<Rightarrow> s | None \<Rightarrow> default_stats)"
  shows "stats_balanced (updated_stats fromiso now file new resolved active)"
proof -
  have "length (filter (\<lambda>c. \<not> unparsed fromiso c) new) \<le> length new"
    by simp
  then show ?thesis
    using assms unfolding stats_balanced_def
    by (simp only: updated_stats_tally updated_stats_scalars) linarith
qed

lemma updated_stats_text:
  assumes "list_all (\<lambda>c. text_field c ''Online_Description'' \<and> text_field c ''Address'') new"
    and "text_tables (case file of Some s \<Rightarrow> s | None \<Rightarrow> default_stats)"
  shows "text_tables (updated_stats fromiso now file new resolved active)"
  using assms unfolding updated_stats_def Let_def text_tables_def
  by (intro foldl_track_text_keyed) simp_all


lemma current_stats_case:
  "(case stats_file fs of Some s \<Rightarrow> s | None \<Rightarrow> default_stats) = current_stats fs"
  by (simp add: current_stats_def)

lemma run_keeps_invariant:
  assumes "stats_balanced (current_stats fs)" "text_tables (current_stats fs)"
    and "list_all (\<lambda>c. text_field c ''Online_Description'' \<and> text_field c ''Address'') new"
  shows "fst (update_stats fromiso now new resolved active fs)
           = current_stats (snd (update_stats fromiso now new resolved active fs))
       \<and> stats_balanced (current_stats (snd (update_stats fromiso now new resolved active fs)))
       \<and> text_tables (current_stats (snd (update_stats fromiso now new resolved active fs)))"
proof -
  let ?s = "updated_stats fromiso now (stats_file fs) new resolved active"
  have b: "stats_balanced ?s"
    using assms(1) by (intro updated_stats_balanced) (simp add: current_stats_case)
  have t: "text_tables ?s"
    using assms(2,3) by (intro updated_stats_text) (simp_all add: current_stats_case)
  then have "json_stats ?s = ?s"
    by (simp add: text_tables_def json_stats_text)
  with b t show ?thesis
    by (simp add: current_stats_update fst_update_stats)
qed

lemma runs_keep_invariant:
  assumes "stats_balanced (current_stats fs)" "text_tables (current_stats fs)"
    and "list_all (\<lambda>r. list_all (\<lambda>c. text_field c ''Online_Description'' \<and> text_field c ''Address'')
           (run_new r)) runs"
  shows "stats_balanced (current_stats (stats_runs fromiso runs fs))
       \<and> text_tables (current_stats (stats_runs fromiso runs fs))"
  using assms(3)
proof (induction runs rule: rev_induct)
  case Nil
  show ?case using assms(1,2) by (simp add: stats_runs_Nil)
next
  case (snoc r runs)
  then show ?case
    by (simp add: stats_runs_snoc run_keeps_invariant)
qed

lemma default_text_tables: "text_tables default_stats"
  by (simp add: text_tables_def text_keyed_def default_stats_def)

text \<open>
  From the default stats, runs whose new records all have a description and an address
  that is a string or absent keep the stats balanced, in the stats file after the runs
  and in the stats a further such run returns.
\<close>

theorem stats_balanced_text_runs:
  assumes "stats_file fs = None"
    and "\<forall>r \<in> set runs. \<forall>c \<in> set (run_new r).
           text_field c ''Online_Description'' \<and> text_field c ''Address''"
    and "\<forall>c \<in> set new_calls. text_field c ''Online_Description'' \<and> text_field c ''Address''"
  shows "stats_balanced (current_stats (stats_runs fromiso runs fs))
       \<and> stats_balanced (fst (update_stats fromiso now new_calls resolved_calls total_active
                                  (stats_runs fromiso runs fs)))"
proof -
  have init: "stats_balanced (current_stats fs)" "text_tables (current_stats fs)"
    using assms(1) by (simp_all add: current_stats_def default_stats_balanced default_text_tables)
  have runs: "list_all (\<lambda>r. list_all (\<lambda>c. text_field c ''Online_Description'' \<and> text_field c ''Address'')
           (run_new r)) runs"
    using assms(2) by (simp add: list_all_iff)
  have new: "list_all (\<lambda>c. text_field c ''Online_Description'' \<and> text_field c ''Address'') new_calls"
    using assms(3) by (simp add: list_all_iff)
  have after: "stats_balanced (current_stats (stats_runs fromiso runs fs))"
    "text_tables (current_stats (stats_runs fromiso runs fs))"
    using runs_keep_invariant [OF init runs] by simp_all
  from run_keeps_invariant [OF after new] after(1) show ?thesis by simp
qed

theorem stats_balanced_text_runs_witness:
  "stats_file no_files = None
 \<and> list_all (\<lambda>c. text_field c ''Online_Description'' \<and> text_field c ''Address'') (run_new text_run)
 \<and> stats_balanced (current_stats (stats_runs iso_basic [text_run, text_run] no_files))
 \<and> stats_balanced (fst (update_stats iso_basic ''2024-01-15T14:36:07+00:00'' [dated_call] [] 2
                            (stats_runs iso_basic [text_run, text_run] no_files)))"
proof -
  have a: "stats_file no_files = None"
    by (simp add: no_files_def)
  have t: "text_field undated_call ''Online_Description'' \<and> text_field undated_call ''Address''
         \<and> text_field dated_call ''Online_Description'' \<and> text_field dated_call ''Address''"
    by (simp add: text_field_def is_text_def undated_call_def dated_call_def)
  have b: "\<forall>r \<in> set [text_run, text_run]. \<forall>c \<in> set (run_new r).
             text_field c ''Online_Description'' \<and> text_field c ''Address''"
    using t by (simp add: text_run_def)
  have c: "\<forall>c \<in> set [dated_call]. text_field c ''Online_Description'' \<and> text_field c ''Address''"
    using t by simp
  show ?thesis
    using a t stats_balanced_text_runs [OF a b c, of iso_basic "''2024-01-15T14:36:07+00:00''" "[]" 2]
    by (simp add: text_run_def)
qed

section \<open>Records whose response time does not parse\<close>

lemma main_exit_ok:
  "fetch_active_calls (response env) = Inr (Records cs) \<Longrightarrow> fst (main fromiso env fs) = 0"
  by (simp add: main_def Let_def as_records_def split: prod.splits)

text \<open>
  Claim C5. For a record whose response time fails to parse, the log line ends in
  \<open>Unknown Time\<close>, the loop body of the Stats Aggregator leaves the hour buckets as they
  are and adds one to the count of the record's description and to the count of its
  address; in a whole run the record adds one to each of the two tables and nothing to
  the hour buckets; and a run that fetched it exits with code 0.
\<close>

theorem unparsed_response_date:
  assumes "unparsed fromiso c"
  shows "format_call_for_log fromiso c status
           = ''['' @ status @ ''] ''
               @ py_str (get_default c ''Master_Incident_Number'' (JStr ''UNKNOWN'')) @ '' | ''
               @ py_str (get_default c ''Online_Description'' (JStr ''Unknown Call Type'')) @ '' | ''
               @ py_str (get_default c ''Address'' (JStr ''Unknown Location''))
               @ '' | Response: Unknown Time''
       \<and> hourly_distribution (track_call fromiso s c) = hourly_distribution s
       \<and> dict_get (call_types (track_call fromiso s c))
             (get_default c ''Online_Description'' (JStr ''Unknown'')) 0
           = dict_get (call_types s) (get_default c ''Online_Description'' (JStr ''Unknown'')) 0 + 1
       \<and> dict_get (addresses (track_call fromiso s c))
             (get_default c ''Address'' (JStr ''Unknown'')) 0
           = dict_get (addresses s) (get_default c ''Address'' (JStr ''Unknown'')) 0 + 1
       \<and> tally (call_types (fst (update_stats fromiso now (pre @ c # post) resolved_calls
                                  total_active fs)))
           = tally (call_types (fst (update_stats fromiso now (pre @ post) resolved_calls
                                  total_active fs))) + 1
       \<and> tally (addresses (fst (update_stats fromiso now (pre @ c # post) resolved_calls
                                  total_active fs)))
           = tally (addresses (fst (update_stats fromiso now (pre @ post) resolved_calls
                                  total_active fs))) + 1
       \<and> tally (hourly_distribution (fst (update_stats fromiso now (pre @ c # post) resolved_calls
                                  total_active fs)))
           = tally (hourly_distribution (fst (update_stats fromiso now (pre @ post) resolved_calls
                                  total_active fs)))
       \<and> (fetch_active_calls (response env) = Inr (Records (pre @ c # post))
            \<longrightarrow> fst (main fromiso env fs) = 0)"
proof -
  have none: "parse_response_date fromiso (get_default c ''Response_Date'' (JStr [])) = None"
    using assms by (simp add: unparsed_def)
  have fmt: "format_call_for_log fromiso c status
           = ''['' @ status @ ''] ''
               @ py_str (get_default c ''Master_Incident_Number'' (JStr ''UNKNOWN'')) @ '' | ''
               @ py_str (get_default c ''Online_Description'' (JStr ''Unknown Call Type'')) @ '' | ''
               @ py_str (get_default c ''Address'' (JStr ''Unknown Location''))
               @ '' | Response: Unknown Time''"
    unfolding format_call_for_log_def Let_def none by simp
  have hourly: "hourly_distribution (track_call fromiso s c) = hourly_distribution s"
    by (simp add: track_call_hourly none)
  have step: "dict_get (call_types (track_call fromiso s c))
             (get_default c ''Online_Description'' (JStr ''Unknown'')) 0
           = dict_get (call_types s) (get_default c ''Online_Description'' (JStr ''Unknown'')) 0 + 1"
     "dict_get (addresses (track_call fromiso s c))
             (get_default c ''Address'' (JStr ''Unknown'')) 0
           = dict_get (addresses s) (get_default c ''Address'' (JStr ''Unknown'')) 0 + 1"
    by (simp_all add: track_call_tables dict_get_set)
  have run: "tally (call_types (fst (update_stats fromiso now (pre @ c # post) resolved_calls
                                  total_active fs)))
           = tally (call_types (fst (update_stats fromiso now (pre @ post) resolved_calls
                                  total_active fs))) + 1"
    "tally (addresses (fst (update_stats fromiso now (pre @ c # post) resolved_calls
                                  total_active fs)))
           = tally (addresses (fst (update_stats fromiso now (pre @ post) resolved_calls
                                  total_active fs))) + 1"
    "tally (hourly_distribution (fst (update_stats fromiso now (pre @ c # post) resolved_calls
                                  total_active fs)))
           = tally (hourly_distribution (fst (update_stats fromiso now (pre @ post) resolved_calls
                                  total_active fs)))"
    using assms by (simp_all add: fst_update_stats updated_stats_tally)
  show ?thesis
    using fmt hourly step run main_exit_ok [of env "pre @ c # post" fromiso fs] by blast
qed

theorem unparsed_response_date_witness:
  "unparsed iso_basic undated_call
 \<and> format_call_for_log iso_basic undated_call ''NEW''
     = ''[NEW] A1 | TRAFFIC STOP | 100 CLEVELAND ST | Response: Unknown Time''
 \<and> hourly_distribution (track_call iso_basic default_stats undated_call)
     = hourly_distribution default_stats
 \<and> dict_get (call_types (track_call iso_basic default_stats undated_call)) (JStr ''TRAFFIC STOP'') 0 = 1
 \<and> dict_get (addresses (track_call iso_basic default_stats undated_call))
       (JStr ''100 CLEVELAND ST'') 0 = 1"
proof -
  have a: "unparsed iso_basic undated_call"
    by (simp add: unparsed_def parse_response_date_def get_default_def replace_Z_def
        iso_basic_def undated_call_def)
  have g: "get_default undated_call ''Master_Incident_Number'' (JStr ''UNKNOWN'') = JStr ''A1''"
    "get_default undated_call ''Online_Description'' (JStr ''Unknown Call Type'') = JStr ''TRAFFIC STOP''"
    "get_default undated_call ''Online_Description'' (JStr ''Unknown'') = JStr ''TRAFFIC STOP''"
    "get_default undated_call ''Address'' (JStr ''Unknown Location'') = JStr ''100 CLEVELAND ST''"
    "get_default undated_call ''Address'' (JStr ''Unknown'') = JStr ''100 CLEVELAND ST''"
    by (simp_all add: get_default_def undated_call_def)
  have d: "call_types default_stats = []" "addresses default_stats = []"
    by (simp_all add: default_stats_def)
  show ?thesis
    using a unparsed_response_date [OF a, of "''NEW''" default_stats]
    by (simp add: g d py_str_def)
qed

section \<open>Loss of the balance in the stats file\<close>

lemma foldl_track_call_types:
  "call_types (foldl (track_call fromiso) s cs)
     = foldl (\<lambda>d c. dict_set d (get_default c ''Online_Description'' (JStr ''Unknown''))
                 (Suc (dict_get d (get_default c ''Online_Description'' (JStr ''Unknown'')) 0)))
         (call_types s) cs"
  by (induction cs arbitrary: s) (simp_all add: track_call_tables)

lemma foldl_track_addresses:
  "addresses (foldl (track_call fromiso) s cs)
     = foldl (\<lambda>d c. dict_set d (get_default c ''Address'' (JStr ''Unknown''))
                 (Suc (dict_get d (get_default c ''Address'' (JStr ''Unknown'')) 0)))
         (addresses s) cs"
  by (induction cs arbitrary: s) (simp_all add: track_call_tables)

lemma tables_after_run:
  "call_types (current_stats (snd (update_stats fromiso now new resolved active fs)))
     = json_table (foldl (\<lambda>d c. dict_set d (get_default c ''Online_Description'' (JStr ''Unknown''))
                 (Suc (dict_get d (get_default c ''Online_Description'' (JStr ''Unknown'')) 0)))
         (call_types (current_stats fs)) new)
 \<and> addresses (current_stats (snd (update_stats fromiso now new resolved active fs)))
     = json_table (foldl (\<lambda>d c. dict_set d (get_default c ''Address'' (JStr ''Unknown''))
                 (Suc (dict_get d (get_default c ''Address'' (JStr ''Unknown'')) 0)))
         (addresses (current_stats fs)) new)"
proof -
  have "call_types (updated_stats fromiso now (stats_file fs) new resolved active)
          = foldl (\<lambda>d c. dict_set d (get_default c ''Online_Description'' (JStr ''Unknown''))
                 (Suc (dict_get d (get_default c ''Online_Description'' (JStr ''Unknown'')) 0)))
         (call_types (current_stats fs)) new"
       "addresses (updated_stats fromiso now (stats_file fs) new resolved active)
          = foldl (\<lambda>d c. dict_set d (get_default c ''Address'' (JStr ''Unknown''))
                 (Suc (dict_get d (get_default c ''Address'' (JStr ''Unknown'')) 0)))
         (addresses (current_stats fs)) new"
    unfolding updated_stats_def Let_def current_stats_case
    by (simp_all add: foldl_track_call_types foldl_track_addresses)
  then show ?thesis
    by (simp add: current_stats_update json_stats_def)
qed

lemma counts_after_run:
  "total_calls_tracked (current_stats (snd (update_stats fromiso now new resolved active fs)))
     = total_calls_tracked (current_stats fs) + length new
 \<and> tally (hourly_distribution (current_stats (snd (update_stats fromiso now new resolved active fs))))
     = tally (hourly_distribution (current_stats fs))
         + length (filter (\<lambda>c. \<not> unparsed fromiso c) new)"
  by (simp add: current_stats_update json_stats_scalars updated_stats_scalars updated_stats_tally
      current_stats_case)

lemma returned_stats_balanced:
  "stats_balanced (current_stats fs) \<Longrightarrow>
   stats_balanced (fst (update_stats fromiso now new resolved active fs))"
  unfolding fst_update_stats
  by (rule updated_stats_balanced) (simp add: current_stats_case)

lemma stats_runs_one:
  "stats_runs fromiso [r] fs
     = snd (update_stats fromiso (run_now r) (run_new r) (run_resolved r) (run_total r) fs)"
  by (simp add: stats_runs_def)

lemma stats_runs_two:
  "stats_runs fromiso [r1, r2] fs
     = snd (update_stats fromiso (run_now r2) (run_new r2) (run_resolved r2) (run_total r2)
              (stats_runs fromiso [r1] fs))"
  by (simp add: stats_runs_def)

lemma no_files_stats:
  "call_types (current_stats no_files) = [] \<and> addresses (current_stats no_files) = []
 \<and> total_calls_tracked (current_stats no_files) = 0
 \<and> tally (hourly_distribution (current_stats no_files)) = 0"
  using default_stats_balanced
  by (simp add: current_stats_def no_files_def stats_balanced_def)
    (simp add: default_stats_def)

lemma null_runs_new:
  "run_new null_run = [[(''Master_Incident_Number'', JStr ''A1''), (''Online_Description'', JNull)]]"
  "run_new null_rerun = [[(''Master_Incident_Number'', JStr ''B2''), (''Online_Description'', JNull)]]"
  by (simp_all add: null_run_def null_rerun_def)

lemma null_unparsed:
  "unparsed iso_basic [(''Master_Incident_Number'', JStr ''A1''), (''Online_Description'', JNull)]"
  "unparsed iso_basic [(''Master_Incident_Number'', JStr ''B2''), (''Online_Description'', JNull)]"
  by (simp_all add: unparsed_def parse_response_date_def get_default_def replace_Z_def iso_basic_def)

lemma null_first:
  "call_types (current_stats (stats_runs iso_basic [null_run] no_files)) = [(JStr ''null'', 1)]
 \<and> addresses (current_stats (stats_runs iso_basic [null_run] no_files)) = [(JStr ''Unknown'', 1)]
 \<and> total_calls_tracked (current_stats (stats_runs iso_basic [null_run] no_files)) = 1
 \<and> tally (hourly_distribution (current_stats (stats_runs iso_basic [null_run] no_files))) = 0"
  by (simp add: stats_runs_one tables_after_run counts_after_run null_runs_new no_files_stats
      null_unparsed get_default_def json_table_def json_key_def)

lemma null_second:
  "call_types (current_stats (stats_runs iso_basic [null_run, null_rerun] no_files))
     = [(JStr ''null'', 1)]
 \<and> total_calls_tracked (current_stats (stats_runs iso_basic [null_run, null_rerun] no_files)) = 2"
  by (simp add: stats_runs_two tables_after_run counts_after_run null_runs_new null_first
      get_default_def json_table_def json_key_def)

text \<open>
  Claim C10, at the input where the code loses the balance. Two runs from the default
  stats each bring one new record whose description is \<open>null\<close>. After the first run the
  stats file is balanced, and the stats that the second run returns are balanced too;
  but the second run counts its record under the key \<open>None\<close> beside the entry
  \<^verbatim>\<open>"null"\<close> read from the file, the two collapse when the file is read back, and
  the stats file holds one description tick for two tracked calls.
\<close>

theorem stats_balance_lost_on_null:
  "stats_balanced (current_stats (stats_runs iso_basic [null_run] no_files))
 \<and> stats_balanced (fst (update_stats iso_basic (run_now null_rerun) (run_new null_rerun)
       (run_resolved null_rerun) (run_total null_rerun) (stats_runs iso_basic [null_run] no_files)))
 \<and> call_types (current_stats (stats_runs iso_basic [null_run, null_rerun] no_files))
     = [(JStr ''null'', 1)]
 \<and> total_calls_tracked (current_stats (stats_runs iso_basic [null_run, null_rerun] no_files)) = 2
 \<and> \<not> stats_balanced (current_stats (stats_runs iso_basic [null_run, null_rerun] no_files))"
proof -
  have first: "stats_balanced (current_stats (stats_runs iso_basic [null_run] no_files))"
    unfolding stats_balanced_def by (simp add: null_first) (simp add: tally_def)
  have lost: "\<not> stats_balanced (current_stats (stats_runs iso_basic [null_run, null_rerun] no_files))"
    unfolding stats_balanced_def by (simp add: null_second) (simp add: tally_def)
  show ?thesis
    using first lost returned_stats_balanced [OF first] null_second by blast
qed

section \<open>Fetch failure\<close>

lemma main_on_failure:
  "fetch_active_calls (response env) = Inr Null \<Longrightarrow>
   main fromiso env fs =
     (1, case historical_log_file fs of
           None \<Rightarrow> fs\<lparr>historical_log_file := Some (log_banner (banner_time env))\<rparr>
         | Some t \<Rightarrow> fs)"
  by (simp add: main_def Let_def)

text \<open>
  Claim C1, as amended. When the request raises a \<^verbatim>\<open>RequestException\<close>, the Fetcher
  returns \<open>None\<close> and the run exits with code 1; the snapshot, the archive, the stats
  file and the CI output are left as they were, and so is a historical log that exists;
  a historical log that does not exist yet has been created before the fetch and holds
  its banner only.
\<close>

theorem fetch_failure_aborts:
  assumes "response env = Raised e"
  shows "fetch_active_calls (response env) = Inr Null
       \<and> fst (main fromiso env fs) = 1
       \<and> current_calls_file (snd (main fromiso env fs)) = current_calls_file fs
       \<and> archive_dir (snd (main fromiso env fs)) = archive_dir fs
       \<and> stats_file (snd (main fromiso env fs)) = stats_file fs
       \<and> github_output_file (snd (main fromiso env fs)) = github_output_file fs
       \<and> historical_log_file (snd (main fromiso env fs))
           = Some (case historical_log_file fs of
                     None \<Rightarrow> log_banner (banner_time env)
                   | Some t \<Rightarrow> t)"
proof -
  have f: "fetch_active_calls (response env) = Inr Null"
    using assms by (simp add: fetch_active_calls_def)
  show ?thesis
    using f by (simp add: main_on_failure [OF f] split: option.splits)
qed

theorem fetch_failure_aborts_witness:
  "response sample_env = Raised Timeout
 \<and> fst (main iso_basic sample_env no_files) = 1
 \<and> current_calls_file (snd (main iso_basic sample_env no_files)) = None
 \<and> stats_file (snd (main iso_basic sample_env no_files)) = None
 \<and> historical_log_file (snd (main iso_basic sample_env no_files))
     = Some (log_banner ''2024-01-15T14:31:05+00:00'')"
proof -
  have a: "response sample_env = Raised Timeout"
    by (simp add: sample_env_def)
  show ?thesis
    using a fetch_failure_aborts [OF a, of iso_basic no_files]
    by (simp add: no_files_def sample_env_def)
qed

text \<open>
  The historical log is not always left untouched: on the first run the banner is
  written before the request is made.
\<close>

theorem fetch_failure_writes_log_counterexample:
  "fetch_active_calls (response sample_env) = Inr Null
 \<and> historical_log_file no_files = None
 \<and> historical_log_file (snd (main iso_basic sample_env no_files))
     = Some (log_banner ''2024-01-15T14:31:05+00:00'')
 \<and> historical_log_file (snd (main iso_basic sample_env no_files)) \<noteq> historical_log_file no_files"
proof -
  have f: "fetch_active_calls (response sample_env) = Inr Null"
    by (simp add: fetch_active_calls_def sample_env_def)
  have m: "main iso_basic sample_env no_files
             = (1, no_files\<lparr>historical_log_file := Some (log_banner (banner_time sample_env))\<rparr>)"
    using main_on_failure [OF f, of iso_basic no_files] by (simp add: no_files_def)
  show ?thesis
    unfolding m using f by (simp add: no_files_def sample_env_def)
qed

section \<open>Properties of the Archiver\<close>

text \<open>
  Claim C8. Two runs of the Archiver under the same date append two entries, in order,
  to the snapshot sequence of that date's file, which is the only file they add or
  change; a run under a date that has no file yet creates the file of that date with the
  new entry alone, and no file of another date is read or changed.
\<close>

theorem archive_by_date:
  "archive_dir (archive_daily_data cs2 ts2 d (archive_daily_data cs1 ts1 d fs)) d
     = Some ((case archive_dir fs d of Some a \<Rightarrow> a | None \<Rightarrow> \<lparr>date = d, snapshots = []\<rparr>)
              \<lparr>snapshots :=
                 snapshots (case archive_dir fs d of Some a \<Rightarrow> a
                            | None \<Rightarrow> \<lparr>date = d, snapshots = []\<rparr>)
                 @ [\<lparr>entry_timestamp = ts1, call_count = length cs1, entry_calls = cs1\<rparr>,
                    \<lparr>entry_timestamp = ts2, call_count = length cs2, entry_calls = cs2\<rparr>]\<rparr>)
 \<and> dom (archive_dir (archive_daily_data cs2 ts2 d (archive_daily_data cs1 ts1 d fs)))
     = insert d (dom (archive_dir fs))
 \<and> (\<forall>d'. d' \<noteq> d \<longrightarrow>
        archive_dir (archive_daily_data cs2 ts2 d (archive_daily_data cs1 ts1 d fs)) d'
          = archive_dir fs d')
 \<and> (archive_dir fs d = None \<longrightarrow>
        archive_dir (archive_daily_data cs1 ts1 d fs) d
          = Some \<lparr>date = d, snapshots =
                    [\<lparr>entry_timestamp = ts1, call_count = length cs1, entry_calls = cs1\<rparr>]\<rparr>)
 \<and> (\<forall>d'. d' \<noteq> d \<longrightarrow> archive_dir (archive_daily_data cs1 ts1 d fs) d' = archive_dir fs d')"
  by (auto simp: archive_daily_data_def Let_def split: option.splits)

theorem archive_by_date_witness:
  "archive_dir (archive_daily_data [dated_call] ''2024-01-15T14:36:06+00:00'' ''2024-01-15''
       (archive_daily_data [undated_call] ''2024-01-15T14:31:06+00:00'' ''2024-01-15'' no_files))
     ''2024-01-15''
     = Some \<lparr>date = ''2024-01-15'', snapshots =
         [\<lparr>entry_timestamp = ''2024-01-15T14:31:06+00:00'', call_count = 1,
            entry_calls = [undated_call]\<rparr>,
          \<lparr>entry_timestamp = ''2024-01-15T14:36:06+00:00'', call_count = 1,
            entry_calls = [dated_call]\<rparr>]\<rparr>
 \<and> archive_dir (archive_daily_data [dated_call] ''2024-01-15T14:36:06+00:00'' ''2024-01-15''
       (archive_daily_data [undated_call] ''2024-01-15T14:31:06+00:00'' ''2024-01-15'' no_files))
     ''2024-01-16'' = None"
  using archive_by_date [of "[dated_call]" "''2024-01-15T14:36:06+00:00''" "''2024-01-15''"
      "[undated_call]" "''2024-01-15T14:31:06+00:00''" no_files]
  by (simp add: no_files_def)

section \<open>Properties of the Alert Evaluator\<close>

lemma is_in_sublist: "is_in xs ys = sublist xs ys"
  by (induction ys) (auto simp: sublist_Cons_right)

lemma type_alerts_find:
  "type_alerts ts call_type a i
     = (case find (\<lambda>t. is_in t call_type) ts of None \<Rightarrow> [] | Some t \<Rightarrow> [type_alert call_type a i])"
  by (induction ts) auto

lemma type_alerts_iff:
  "type_alerts ts call_type a i
     = (if \<exists>t \<in> set ts. is_in t call_type then [type_alert call_type a i] else [])"
  by (induction ts) auto

lemma no_address_alerts: "address_alerts str_upper ALERT_ADDRESSES call_type a i = Inr []"
  by (simp add: ALERT_ADDRESSES_def)

text \<open>
  Claim C6. For every record whose description is a string, the type rule appends an
  alert if and only if the description contains, compared in upper case, one of the
  watched call types, and then exactly one alert; the loop stops at the first watched
  call type it finds; a description that is not a string raises \<^verbatim>\<open>AttributeError\<close>.
  The watched call types of the script are in upper case, which is all that is assumed
  of \<open>str_upper\<close>.
\<close>

theorem type_rule:
  assumes "\<forall>w \<in> set ALERT_CALL_TYPES. str_upper w = w"
  shows "call_alerts str_upper c =
           (case get_default c ''Online_Description'' (JStr []) of
              JStr d \<Rightarrow>
                Inr (if \<exists>w \<in> set ALERT_CALL_TYPES. is_in (str_upper w) (str_upper d)
                     then [type_alert (str_upper d) (get_default c ''Address'' (JStr []))
                             (get_default c ''Master_Incident_Number'' (JStr []))]
                     else [])
            | _ \<Rightarrow> Inl AttributeError)
       \<and> type_alerts ts call_type a i
           = (case find (\<lambda>t. is_in t call_type) ts of
                None \<Rightarrow> [] | Some t \<Rightarrow> [type_alert call_type a i])
       \<and> length (type_alerts ts call_type a i) \<le> 1"
proof -
  have same: "(\<exists>w \<in> set ALERT_CALL_TYPES. is_in (str_upper w) x)
                \<longleftrightarrow> (\<exists>w \<in> set ALERT_CALL_TYPES. is_in w x)" for x
    using assms by auto
  have "call_alerts str_upper c =
           (case get_default c ''Online_Description'' (JStr []) of
              JStr d \<Rightarrow>
                Inr (if \<exists>w \<in> set ALERT_CALL_TYPES. is_in (str_upper w) (str_upper d)
                     then [type_alert (str_upper d) (get_default c ''Address'' (JStr []))
                             (get_default c ''Master_Incident_Number'' (JStr []))]
                     else [])
            | _ \<Rightarrow> Inl AttributeError)"
    unfolding same
    by (simp add: call_alerts_def Let_def no_address_alerts type_alerts_iff split: jval.splits)
  moreover have "length (type_alerts ts call_type a i) \<le> 1"
    by (simp add: type_alerts_iff)
  ultimately show ?thesis
    using type_alerts_find by blast
qed

lemma ascii_upper_watched: "\<forall>w \<in> set ALERT_CALL_TYPES. ascii_upper w = w"
  by (simp add: ALERT_CALL_TYPES_def ascii_upper_def upper_char_def)

lemma stop_upper: "ascii_upper ''Traffic Stop'' = ''TRAFFIC STOP''"
  by (simp add: ascii_upper_def upper_char_def)

theorem type_rule_witness:
  "list_all (\<lambda>w. ascii_upper w = w) ALERT_CALL_TYPES
 \<and> call_alerts ascii_upper stop_call
     = Inr [type_alert ''TRAFFIC STOP'' (JStr ''100 CLEVELAND ST'') (JStr ''A1'')]
 \<and> call_alerts ascii_upper dated_call = Inr []"
proof -
  have g: "get_default stop_call ''Online_Description'' (JStr []) = JStr ''Traffic Stop''"
    "get_default stop_call ''Address'' (JStr []) = JStr ''100 CLEVELAND ST''"
    "get_default stop_call ''Master_Incident_Number'' (JStr []) = JStr ''A1''"
    "get_default dated_call ''Online_Description'' (JStr []) = JStr ''ARMED ROBBERY''"
    by (simp_all add: get_default_def stop_call_def dated_call_def)
  have u: "ascii_upper ''ARMED ROBBERY'' = ''ARMED ROBBERY''"
    by (simp add: ascii_upper_def upper_char_def)
  have w: "\<forall>w \<in> set ALERT_CALL_TYPES. ascii_upper w = w"
    by (rule ascii_upper_watched)
  have fires: "\<exists>w \<in> set ALERT_CALL_TYPES. is_in (ascii_upper w) ''TRAFFIC STOP''"
    using w by (simp add: ALERT_CALL_TYPES_def)
  have quiet: "\<not> (\<exists>w \<in> set ALERT_CALL_TYPES. is_in (ascii_upper w) ''ARMED ROBBERY'')"
    using w by (simp add: ALERT_CALL_TYPES_def)
  show ?thesis
    using w type_rule [OF w, of stop_call] type_rule [OF w, of dated_call] fires quiet
    by (simp add: g u stop_upper list_all_iff)
qed









end
